theory Spec2Isabelle
  imports Complex_Main
begin

section \<open>Strings and the bounded deque\<close>

text \<open>
  A Python \<open>str\<close> is modelled as a \<open>string\<close> whose characters are code points: the
  character \<open>CHR n\<close> is the code point \<open>n\<close>, for \<open>n\<close> below 256. On these code points
  \<open>isspace\<close> is \<open>str.isspace\<close> (the characters \<open>str.strip()\<close> removes) and
  \<open>lower_char\<close> is \<open>str.lower\<close>. A \<open>str\<close> holding a code point above 255 is not a
  value of this type.
\<close>

definition newline :: string where
  "newline = [CHR 0x0A]"

definition isspace :: "char \<Rightarrow> bool" where
  "isspace c \<longleftrightarrow> c \<in> set [CHR 0x09, CHR 0x0A, CHR 0x0B, CHR 0x0C, CHR 0x0D,
                            CHR 0x1C, CHR 0x1D, CHR 0x1E, CHR 0x1F, CHR 0x20,
                            CHR 0x85, CHR 0xA0]"

text \<open>\<open>s.strip()\<close>: leading and trailing whitespace removed.\<close>

definition strip :: "string \<Rightarrow> string" where
  "strip s = rev (dropWhile isspace (rev (dropWhile isspace s)))"

text \<open>
  The cased letters below 256: \<open>A\<close> to \<open>Z\<close>, and \<open>0xC0\<close> to \<open>0xDE\<close> without \<open>0xD7\<close>;
  each has its lower-case form 32 above it.
\<close>

definition upper_letters :: string where
  "upper_letters = ''ABCDEFGHIJKLMNOPQRSTUVWXYZ'' @
     [CHR 0xC0, CHR 0xC1, CHR 0xC2, CHR 0xC3, CHR 0xC4, CHR 0xC5, CHR 0xC6, CHR 0xC7,
      CHR 0xC8, CHR 0xC9, CHR 0xCA, CHR 0xCB, CHR 0xCC, CHR 0xCD, CHR 0xCE, CHR 0xCF,
      CHR 0xD0, CHR 0xD1, CHR 0xD2, CHR 0xD3, CHR 0xD4, CHR 0xD5, CHR 0xD6, CHR 0xD8,
      CHR 0xD9, CHR 0xDA, CHR 0xDB, CHR 0xDC, CHR 0xDD, CHR 0xDE]"

definition lower_letters :: string where
  "lower_letters = ''abcdefghijklmnopqrstuvwxyz'' @
     [CHR 0xE0, CHR 0xE1, CHR 0xE2, CHR 0xE3, CHR 0xE4, CHR 0xE5, CHR 0xE6, CHR 0xE7,
      CHR 0xE8, CHR 0xE9, CHR 0xEA, CHR 0xEB, CHR 0xEC, CHR 0xED, CHR 0xEE, CHR 0xEF,
      CHR 0xF0, CHR 0xF1, CHR 0xF2, CHR 0xF3, CHR 0xF4, CHR 0xF5, CHR 0xF6, CHR 0xF8,
      CHR 0xF9, CHR 0xFA, CHR 0xFB, CHR 0xFC, CHR 0xFD, CHR 0xFE]"

definition lower_char :: "char \<Rightarrow> char" where
  "lower_char c =
     (case map_of (zip upper_letters lower_letters) c of
        Some d \<Rightarrow> d
      | None \<Rightarrow> c)"

definition lower :: "string \<Rightarrow> string" where
  "lower s = map lower_char s"

text \<open>\<open>sep.join(xs)\<close>.\<close>

fun join :: "string \<Rightarrow> string list \<Rightarrow> string" where
  "join sep [] = []"
| "join sep [x] = x"
| "join sep (x # y # ys) = x @ sep @ join sep (y # ys)"

text \<open>
  \<open>collections.deque(maxlen=n).append(x)\<close>: the element goes to the right end, and when
  the deque then holds more than \<open>maxlen\<close> elements the leftmost one is discarded. With
  \<open>maxlen = 0\<close> nothing is retained.
\<close>

definition deque_append :: "nat \<Rightarrow> 'a list \<Rightarrow> 'a \<Rightarrow> 'a list" where
  "deque_append n d x = (let d' = d @ [x] in if n < length d' then tl d' else d')"

text \<open>The slice \<open>xs[-n:]\<close> for \<open>n > 0\<close>: the last \<open>n\<close> elements, all of them when fewer.\<close>

definition last_n :: "nat \<Rightarrow> 'a list \<Rightarrow> 'a list" where
  "last_n n xs = drop (length xs - n) xs"

section \<open>Data model\<close>

datatype py_exception = ValueError | OverflowError | APIError | IndexError | AttributeError

text \<open>The dictionary built by \<open>_store_interaction\<close>; \<open>timestamp\<close> is \<open>time.time()\<close>.\<close>

record interaction =
  user_input :: string
  response :: string
  intent :: string
  timestamp :: real

text \<open>
  The instance: \<open>self.model\<close>, the client (kept as the key it was built from) and
  \<open>self.memory\<close>, a deque with its \<open>maxlen\<close>.
\<close>

record agent =
  api_key :: string
  model :: string
  memory :: "interaction list"
  maxlen :: nat

text \<open>The dictionary returned by \<open>process_input\<close>.\<close>

record reply =
  reply_user_input :: string
  reply_intent :: string
  reply_response :: string

subsection \<open>The provider\<close>

text \<open>
  One call of \<open>client.chat.completions.create\<close>. The call either raises or returns a
  response whose \<open>choices\<close> carry a \<open>message.content\<close> each, which may be \<open>None\<close>.
  The provider is any function of its own state \<open>'w\<close> and the request; the requests
  issued are logged beside that state.
\<close>

record request =
  req_model :: string
  req_system :: string
  req_user :: string
  req_temperature :: real
  req_max_tokens :: nat

type_synonym completion = "string option list"

type_synonym 'w provider = "'w \<Rightarrow> request \<Rightarrow> (py_exception + completion) \<times> 'w"

type_synonym 'w io = "'w \<times> request list"

definition create :: "'w provider \<Rightarrow> request \<Rightarrow> 'w io \<Rightarrow> (py_exception + completion) \<times> 'w io" where
  "create client req io =
     (case io of (w, calls) \<Rightarrow>
        (case client w req of (out, w') \<Rightarrow> (out, (w', calls @ [req]))))"

text \<open>
  \<open>response.choices[0].message.content.strip()\<close>: an empty \<open>choices\<close> raises
  \<open>IndexError\<close>, a \<open>None\<close> content raises \<open>AttributeError\<close>.
\<close>

definition first_content_stripped :: "completion \<Rightarrow> py_exception + string" where
  "first_content_stripped choices =
     (case choices of
        [] \<Rightarrow> Inl IndexError
      | None # _ \<Rightarrow> Inl AttributeError
      | Some content # _ \<Rightarrow> Inr (strip content))"

section \<open>The class AgenticLLM\<close>

subsection \<open>Construction\<close>

definition intent_system_prompt :: string where
  \<open>intent_system_prompt = join newline
     [''You are an intent classifier. Your job is to classify user input as either 'factual' or 'creative'.'',
      [],
      ''Factual queries include:'',
      ''- Questions asking for specific information, facts, or data'',
      ''- Requests for explanations or definitions'',
      ''- "Who is...", "What is...", "When did...", "How many..." type questions'',
      ''- Technical or academic questions'',
      [],
      ''Creative prompts include:'',
      ''- Requests to generate stories, poems, or creative writing'',
      ''- Requests for captions, taglines, or creative descriptions'',
      ''- "Write a...", "Create a...", "Generate a..." for creative content'',
      ''- Brainstorming or imaginative requests'',
      [],
      ''Respond with only 'factual' or 'creative'.'']\<close>

definition factual_system_prompt :: string where
  "factual_system_prompt = join newline
     [''You are a knowledgeable assistant that provides accurate, concise answers to factual questions. '',
      ''Focus on being informative, precise, and helpful. Use the conversation context when relevant.'']"

definition creative_system_prompt :: string where
  "creative_system_prompt = join newline
     [''You are a creative assistant that generates imaginative and engaging content.'',
      ''Be creative, original, and engaging while staying appropriate. Use the conversation context when relevant.'']"

text \<open>
  The largest \<open>maxlen\<close> a deque takes: the maximum of the C type \<open>ssize_t\<close>
  (\<open>sys.maxsize\<close>), on a 64-bit build.
\<close>

definition ssize_t_max :: int where
  "ssize_t_max = 2 ^ 63 - 1"

text \<open>
  \<open>__init__\<close>. The first argument is \<open>os.getenv('OPENAI_API_KEY')\<close> as read after
  \<open>load_dotenv()\<close>. A missing or empty key raises \<open>ValueError\<close>. Then
  \<open>deque(maxlen=memory_size)\<close> converts \<open>memory_size\<close> to \<open>ssize_t\<close>, raising
  \<open>OverflowError\<close> when it does not fit, and raises \<open>ValueError\<close> when it is negative.
\<close>

definition init :: "string option \<Rightarrow> string \<Rightarrow> int \<Rightarrow> py_exception + agent" where
  "init getenv_key model_name memory_size =
     (case getenv_key of
        None \<Rightarrow> Inl ValueError
      | Some key \<Rightarrow>
          if key = [] then Inl ValueError
          else if memory_size < - ssize_t_max - 1 \<or> ssize_t_max < memory_size
            then Inl OverflowError
          else if memory_size < 0 then Inl ValueError
          else Inr \<lparr>api_key = key, model = model_name, memory = [], maxlen = nat memory_size\<rparr>)"

subsection \<open>Context rendering\<close>

text \<open>The list \<open>context_lines\<close> built by the loop of \<open>_get_context_string\<close>.\<close>

fun context_lines :: "interaction list \<Rightarrow> string list" where
  "context_lines [] = []"
| "context_lines (i # is) =
     (''User: '' @ user_input i) # (''Assistant: '' @ response i) # context_lines is"

definition get_context_string :: "agent \<Rightarrow> string" where
  "get_context_string self =
     (if memory self = [] then ''No previous conversation.''
      else join newline (last_n 6 (context_lines (memory self))))"

subsection \<open>Classification\<close>

definition intent_request :: "agent \<Rightarrow> string \<Rightarrow> request" where
  "intent_request self text =
     \<lparr>req_model = model self,
      req_system = intent_system_prompt,
      req_user = ''Classify this input: '' @ [CHR 0x27] @ text @ [CHR 0x27],
      req_temperature = 0.1,
      req_max_tokens = 10\<rparr>"

text \<open>The body of the \<open>try\<close> block of \<open>_detect_intent\<close>, up to the normalised output.\<close>

definition detect_intent_try :: "'w provider \<Rightarrow> agent \<Rightarrow> string \<Rightarrow> 'w io \<Rightarrow> (py_exception + string) \<times> 'w io" where
  "detect_intent_try client self text io =
     (case create client (intent_request self text) io of
        (Inl e, io') \<Rightarrow> (Inl e, io')
      | (Inr choices, io') \<Rightarrow>
          (case first_content_stripped choices of
             Inl e \<Rightarrow> (Inl e, io')
           | Inr content \<Rightarrow> (Inr (lower content), io')))"

definition detect_intent :: "'w provider \<Rightarrow> agent \<Rightarrow> string \<Rightarrow> 'w io \<Rightarrow> string \<times> 'w io" where
  "detect_intent client self text io =
     (case detect_intent_try client self text io of
        (Inr label, io') \<Rightarrow>
          (if label \<notin> set [''factual'', ''creative''] then (''factual'', io')
           else (label, io'))
      | (Inl e, io') \<Rightarrow> (''factual'', io'))"

subsection \<open>Generation\<close>

definition factual_user_message :: "string \<Rightarrow> string \<Rightarrow> string" where
  "factual_user_message context text = join newline
     [''Context from previous conversation:'',
      context,
      [],
      ''Current question: '' @ text,
      [],
      ''Please provide a direct, factual answer.'']"

definition creative_user_message :: "string \<Rightarrow> string \<Rightarrow> string" where
  "creative_user_message context text = join newline
     [''Context from previous conversation:'',
      context,
      [],
      ''Current creative request: '' @ text,
      [],
      ''Please generate creative content based on this request.'']"

definition factual_request :: "agent \<Rightarrow> string \<Rightarrow> request" where
  "factual_request self text =
     \<lparr>req_model = model self,
      req_system = factual_system_prompt,
      req_user = factual_user_message (get_context_string self) text,
      req_temperature = 0.2,
      req_max_tokens = 250\<rparr>"

definition creative_request :: "agent \<Rightarrow> string \<Rightarrow> request" where
  "creative_request self text =
     \<lparr>req_model = model self,
      req_system = creative_system_prompt,
      req_user = creative_user_message (get_context_string self) text,
      req_temperature = 0.8,
      req_max_tokens = 250\<rparr>"

definition factual_apology :: string where
  "factual_apology =
     ''I apologize, but I encountered an error while processing your question. Please try again.''"

definition creative_apology :: string where
  "creative_apology =
     ''I apologize, but I encountered an error while generating creative content. Please try again.''"

text \<open>The \<open>try\<close> block shared by the two generators: the call and the reading of its content.\<close>

definition generate_try :: "'w provider \<Rightarrow> request \<Rightarrow> 'w io \<Rightarrow> (py_exception + string) \<times> 'w io" where
  "generate_try client req io =
     (case create client req io of
        (Inl e, io') \<Rightarrow> (Inl e, io')
      | (Inr choices, io') \<Rightarrow> (first_content_stripped choices, io'))"

definition generate_factual_response :: "'w provider \<Rightarrow> agent \<Rightarrow> string \<Rightarrow> 'w io \<Rightarrow> string \<times> 'w io" where
  "generate_factual_response client self text io =
     (case generate_try client (factual_request self text) io of
        (Inr content, io') \<Rightarrow> (content, io')
      | (Inl e, io') \<Rightarrow> (factual_apology, io'))"

definition generate_creative_response :: "'w provider \<Rightarrow> agent \<Rightarrow> string \<Rightarrow> 'w io \<Rightarrow> string \<times> 'w io" where
  "generate_creative_response client self text io =
     (case generate_try client (creative_request self text) io of
        (Inr content, io') \<Rightarrow> (content, io')
      | (Inl e, io') \<Rightarrow> (creative_apology, io'))"

subsection \<open>The history\<close>

definition mk_interaction :: "string \<Rightarrow> string \<Rightarrow> string \<Rightarrow> real \<Rightarrow> interaction" where
  "mk_interaction text resp label now =
     \<lparr>user_input = text, response = resp, intent = label, timestamp = now\<rparr>"

text \<open>\<open>_store_interaction\<close>; \<open>now\<close> is the value \<open>time.time()\<close> returns in it.\<close>

definition store_interaction :: "agent \<Rightarrow> string \<Rightarrow> string \<Rightarrow> string \<Rightarrow> real \<Rightarrow> agent" where
  "store_interaction self text resp label now =
     self\<lparr>memory := deque_append (maxlen self) (memory self) (mk_interaction text resp label now)\<rparr>"

definition get_memory_summary :: "agent \<Rightarrow> interaction list" where
  "get_memory_summary self = memory self"

definition clear_memory :: "agent \<Rightarrow> agent" where
  "clear_memory self = self\<lparr>memory := []\<rparr>"

text \<open>
  \<open>get_memory_stats\<close>. The result is a dictionary, kept as the list of its items; a key
  is read with \<open>map_of\<close>.
\<close>

definition get_memory_stats :: "agent \<Rightarrow> (string \<times> int) list" where
  "get_memory_stats self =
     (if memory self = [] then
        [(''total_interactions'', 0), (''factual_count'', 0), (''creative_count'', 0)]
      else
        [(''total_interactions'', int (length (memory self))),
         (''factual_count'', int (length (filter (\<lambda>i. intent i = ''factual'') (memory self)))),
         (''creative_count'', int (length (filter (\<lambda>i. intent i = ''creative'') (memory self)))),
         (''memory_capacity'', int (maxlen self))])"

subsection \<open>The pipeline\<close>

definition process_input :: "'w provider \<Rightarrow> agent \<Rightarrow> string \<Rightarrow> real \<Rightarrow> 'w io \<Rightarrow> reply \<times> agent \<times> 'w io" where
  "process_input client self raw now io =
     (if raw = [] \<or> strip raw = [] then
        (\<lparr>reply_user_input = raw, reply_intent = ''unknown'',
          reply_response = ''Please provide a valid input.''\<rparr>, self, io)
      else
        (let text = strip raw in
         case detect_intent client self text io of
           (label, io1) \<Rightarrow>
             (case (if label = ''creative'' then generate_creative_response client self text io1
                    else generate_factual_response client self text io1) of
                (resp, io2) \<Rightarrow>
                  (\<lparr>reply_user_input = text, reply_intent = label, reply_response = resp\<rparr>,
                   store_interaction self text resp label now, io2))))"

section \<open>Runs of operations\<close>

text \<open>
  A call \<open>_store_interaction(user_input, response, intent)\<close> together with the clock
  value it reads, and the record it builds.
\<close>

type_synonym entry = "string \<times> string \<times> string \<times> real"

fun entry_record :: "entry \<Rightarrow> interaction" where
  "entry_record (text, resp, label, now) = mk_interaction text resp label now"

fun store_all :: "agent \<Rightarrow> entry list \<Rightarrow> agent" where
  "store_all self [] = self"
| "store_all self ((text, resp, label, now) # es) =
     store_all (store_interaction self text resp label now) es"

text \<open>
  The operations a caller can run on an instance: \<open>process_input\<close> (with the clock value
  read when the interaction is stored), a direct \<open>_store_interaction\<close>, and
  \<open>clear_memory\<close>.
\<close>

datatype operation =
  Process string real
| Append string string string real
| Clear

fun run_op :: "'w provider \<Rightarrow> agent \<times> 'w io \<Rightarrow> operation \<Rightarrow> agent \<times> 'w io" where
  "run_op client (self, io) (Process raw now) =
     (case process_input client self raw now io of (rep, self', io') \<Rightarrow> (self', io'))"
| "run_op client (self, io) (Append t resp label now) =
     (store_interaction self t resp label now, io)"
| "run_op client (self, io) Clear = (clear_memory self, io)"

fun run_ops :: "'w provider \<Rightarrow> agent \<times> 'w io \<Rightarrow> operation list \<Rightarrow> agent \<times> 'w io" where
  "run_ops client st [] = st"
| "run_ops client st (x # xs) = run_ops client (run_op client st x) xs"

text \<open>
  The docstring of \<open>_store_interaction\<close> gives its \<open>intent\<close> argument as the detected
  intent, \<open>'factual'\<close> or \<open>'creative'\<close>; a direct append is well-formed when it respects that.
\<close>

fun well_formed_op :: "operation \<Rightarrow> bool" where
  "well_formed_op (Append t resp label now) \<longleftrightarrow> label \<in> set [''factual'', ''creative'']"
| "well_formed_op _ \<longleftrightarrow> True"

section \<open>The history as shared objects\<close>

text \<open>
  The deque holds references to dictionary objects, and \<open>list(self.memory)\<close> builds a new
  list object holding the same references. The objects live in a heap; an address is
  an index into it, and a new object takes the next free index.
\<close>

type_synonym ref = nat

datatype pyobj =
  DictObj interaction
| ListObj "ref list"
| DequeObj "ref list" nat

type_synonym heap = "pyobj list"

definition h_lookup :: "heap \<Rightarrow> ref \<Rightarrow> pyobj option" where
  "h_lookup h r = (if r < length h then Some (h ! r) else None)"

definition h_alloc :: "heap \<Rightarrow> pyobj \<Rightarrow> ref \<times> heap" where
  "h_alloc h obj = (length h, h @ [obj])"

text \<open>\<open>deque(maxlen=n)\<close>, as \<open>__init__\<close> creates \<open>self.memory\<close>.\<close>

definition h_new_memory :: "heap \<Rightarrow> nat \<Rightarrow> ref \<times> heap" where
  "h_new_memory h n = h_alloc h (DequeObj [] n)"

text \<open>\<open>_store_interaction\<close> on the instance whose \<open>self.memory\<close> is at address \<open>m\<close>.\<close>

definition h_store_interaction :: "heap \<Rightarrow> ref \<Rightarrow> string \<Rightarrow> string \<Rightarrow> string \<Rightarrow> real \<Rightarrow> heap option" where
  "h_store_interaction h m t resp label now =
     (case h_lookup h m of
        Some (DequeObj rs n) \<Rightarrow>
          (case h_alloc h (DictObj (mk_interaction t resp label now)) of
             (r, h1) \<Rightarrow> Some (h1[m := DequeObj (deque_append n rs r) n]))
      | _ \<Rightarrow> None)"

text \<open>\<open>get_memory_summary\<close>: the address of the new list and the heap holding it.\<close>

definition h_get_memory_summary :: "heap \<Rightarrow> ref \<Rightarrow> (ref \<times> heap) option" where
  "h_get_memory_summary h m =
     (case h_lookup h m of
        Some (DequeObj rs n) \<Rightarrow> Some (h_alloc h (ListObj rs))
      | _ \<Rightarrow> None)"

definition h_dict :: "heap \<Rightarrow> ref \<Rightarrow> interaction option" where
  "h_dict h r = (case h_lookup h r of Some (DictObj d) \<Rightarrow> Some d | _ \<Rightarrow> None)"

text \<open>The records a list of references stands for, read in order.\<close>

definition h_records :: "heap \<Rightarrow> ref list \<Rightarrow> interaction list option" where
  "h_records h rs = those (map (h_dict h) rs)"

text \<open>The internal state of the history: the records of the deque at \<open>m\<close> and its \<open>maxlen\<close>.\<close>

definition h_memory :: "heap \<Rightarrow> ref \<Rightarrow> (interaction list \<times> nat) option" where
  "h_memory h m =
     (case h_lookup h m of
        Some (DequeObj rs n) \<Rightarrow> map_option (\<lambda>recs. (recs, n)) (h_records h rs)
      | _ \<Rightarrow> None)"

text \<open>\<open>get_memory_stats\<close> on the heap.\<close>

definition h_get_memory_stats :: "heap \<Rightarrow> ref \<Rightarrow> (string \<times> int) list option" where
  "h_get_memory_stats h m =
     (case h_memory h m of
        None \<Rightarrow> None
      | Some (recs, n) \<Rightarrow>
          Some (if recs = [] then
                  [(''total_interactions'', 0), (''factual_count'', 0), (''creative_count'', 0)]
                else
                  [(''total_interactions'', int (length recs)),
                   (''factual_count'', int (length (filter (\<lambda>i. intent i = ''factual'') recs))),
                   (''creative_count'', int (length (filter (\<lambda>i. intent i = ''creative'') recs))),
                   (''memory_capacity'', int n)]))"

text \<open>
  What a caller can do with the returned list \<open>l\<close>: any mutation of the list itself
  (\<open>append\<close>, \<open>pop\<close>, \<open>clear\<close>, \<open>l[i] = x\<close>, \<open>sort\<close>) leaves it holding some other
  references \<open>ys\<close>; and \<open>l[i]['intent'] = v\<close> writes into the dictionary the \<open>i\<close>-th
  element refers to.
\<close>

definition caller_mutates_list :: "heap \<Rightarrow> ref \<Rightarrow> ref list \<Rightarrow> heap" where
  "caller_mutates_list h l ys = h[l := ListObj ys]"

definition caller_sets_intent :: "heap \<Rightarrow> ref \<Rightarrow> nat \<Rightarrow> string \<Rightarrow> heap option" where
  "caller_sets_intent h l i v =
     (case h_lookup h l of
        Some (ListObj rs) \<Rightarrow>
          (if i < length rs then
             (case h_lookup h (rs ! i) of
                Some (DictObj d) \<Rightarrow> Some (h[rs ! i := DictObj (d\<lparr>intent := v\<rparr>)])
              | _ \<Rightarrow> None)
           else None)
      | _ \<Rightarrow> None)"

section \<open>Example instances\<close>

definition fresh_agent :: "nat \<Rightarrow> agent" where
  "fresh_agent n = \<lparr>api_key = ''sk-test'', model = ''gpt-4o'', memory = [], maxlen = n\<rparr>"

text \<open>An instance of capacity 4 after four interactions.\<close>

definition four_agent :: agent where
  "four_agent = store_all (fresh_agent 4)
     [(''q1'', ''r1'', ''factual'', 1), (''q2'', ''r2'', ''creative'', 2),
      (''q3'', ''r3'', ''factual'', 3), (''q4'', ''r4'', ''factual'', 4)]"

text \<open>The heap after \<open>deque(maxlen=3)\<close> and one stored interaction.\<close>

definition one_record_heap :: heap where
  "one_record_heap = [DequeObj [1] 3, DictObj (mk_interaction ''q'' ''r'' ''factual'' 1)]"

text \<open>A provider whose every call raises, and one that always answers with the same content.\<close>

definition failing_provider :: "unit provider" where
  "failing_provider w req = (Inl APIError, w)"

definition constant_provider :: "string \<Rightarrow> unit provider" where
  "constant_provider content w req = (Inr [Some content], w)"


section \<open>Properties of the history\<close>

lemma last_n_length: "length (last_n n xs) \<le> n"
  by (simp add: last_n_def)

lemma deque_append_last_n:
  "length d \<le> n \<Longrightarrow> deque_append n d x = last_n n (d @ [x])"
  by (cases d) (auto simp: deque_append_def last_n_def Let_def Suc_diff_le drop_Cons')

lemma last_n_append_last_n: "last_n n (last_n n xs @ ys) = last_n n (xs @ ys)"
proof -
  have "length xs + length ys - (length xs - n + n) + (length xs - n) = length xs + length ys - n"
    by arith
  then show ?thesis by (simp add: last_n_def)
qed

lemma store_interaction_maxlen: "maxlen (store_interaction a t r l now) = maxlen a"
  by (simp add: store_interaction_def)

text \<open>
  A run of appends leaves the last \<open>maxlen\<close> records of everything appended so far,
  whatever the history held before.
\<close>

lemma store_all_memory:
  "length (memory a) \<le> maxlen a \<Longrightarrow>
   memory (store_all a es) = last_n (maxlen a) (memory a @ map entry_record es)"
proof (induction a es rule: store_all.induct)
  case (1 self)
  then show ?case by (simp add: last_n_def)
next
  case (2 self t resp label now es)
  let ?a = "store_interaction self t resp label now"
  have m: "memory ?a = last_n (maxlen self) (memory self @ [mk_interaction t resp label now])"
    using 2(2) by (simp add: store_interaction_def deque_append_last_n)
  have "length (memory ?a) \<le> maxlen ?a"
    by (simp add: m store_interaction_maxlen last_n_length)
  from 2(1)[OF this] show ?case
    by (simp add: m store_interaction_maxlen last_n_append_last_n)
qed

text \<open>
  C1. For a capacity \<open>N \<ge> 1\<close> and a run of \<open>M > N\<close> appends on a freshly constructed
  instance, the history never holds more than \<open>N\<close> records (after every prefix of the
  run), and at the end \<open>get_memory_summary\<close> returns exactly \<open>N\<close> records: the records of
  the last \<open>N\<close> appends, in the order they were appended.
\<close>

theorem history_bounded_last_N:
  assumes "init (Some key) m (int N) = Inr a0" and "1 \<le> N" and "N < length es"
  shows "(\<forall>k\<le>length es. length (memory (store_all a0 (take k es))) \<le> N) \<and>
         length (get_memory_summary (store_all a0 es)) = N \<and>
         get_memory_summary (store_all a0 es) = map entry_record (drop (length es - N) es)"
proof -
  from assms(1) have a0: "memory a0 = []" "maxlen a0 = N"
    by (auto simp: init_def split: if_splits)
  have mem: "memory (store_all a0 xs) = last_n N (map entry_record xs)" for xs
    using store_all_memory[of a0 xs] a0 by simp
  show ?thesis using assms(3)
    by (simp add: mem get_memory_summary_def last_n_length) (simp add: last_n_def drop_map)
qed

theorem history_bounded_last_N_witness:
  "init (Some ''k'') ''gpt-4o'' (int 1) =
     Inr \<lparr>api_key = ''k'', model = ''gpt-4o'', memory = [], maxlen = 1\<rparr> \<and>
   (1::nat) \<le> 1 \<and>
   1 < length [(''a'', ''x'', ''factual'', 1::real), (''b'', ''y'', ''creative'', 2)] \<and>
   get_memory_summary (store_all \<lparr>api_key = ''k'', model = ''gpt-4o'', memory = [], maxlen = 1\<rparr>
       [(''a'', ''x'', ''factual'', 1), (''b'', ''y'', ''creative'', 2)]) =
     [\<lparr>user_input = ''b'', response = ''y'', intent = ''creative'', timestamp = 2\<rparr>]"
  using history_bounded_last_N [of "''k''" "''gpt-4o''" 1
     "\<lparr>api_key = ''k'', model = ''gpt-4o'', memory = [], maxlen = 1\<rparr>"
     "[(''a'', ''x'', ''factual'', 1), (''b'', ''y'', ''creative'', 2)]"]
  by (simp add: init_def ssize_t_max_def mk_interaction_def)


section \<open>Construction\<close>

text \<open>
  C10. Construction with \<open>OPENAI_API_KEY\<close> unset or empty raises \<open>ValueError\<close>, so an
  instance exists only for a non-empty key, and every instance that is constructed has
  an empty history of the configured capacity. With a non-empty key and a capacity that
  \<open>deque\<close> accepts (\<open>0 \<le> memory_size \<le> sys.maxsize\<close>) construction succeeds.
\<close>

theorem init_requires_api_key:
  "(getenv_key = None \<or> getenv_key = Some [] \<longrightarrow> init getenv_key m n = Inl ValueError) \<and>
   (\<forall>a. init getenv_key m n = Inr a \<longrightarrow>
        (\<exists>k. getenv_key = Some k \<and> k \<noteq> []) \<and> memory a = [] \<and> int (maxlen a) = n) \<and>
   (\<forall>k. getenv_key = Some k \<and> k \<noteq> [] \<and> 0 \<le> n \<and> n \<le> ssize_t_max \<longrightarrow>
        (\<exists>a. init getenv_key m n = Inr a \<and> memory a = [] \<and> int (maxlen a) = n))"
proof -
  have "getenv_key = None \<or> getenv_key = Some [] \<longrightarrow> init getenv_key m n = Inl ValueError"
    by (auto simp: init_def)
  moreover have "\<forall>a. init getenv_key m n = Inr a \<longrightarrow>
        (\<exists>k. getenv_key = Some k \<and> k \<noteq> []) \<and> memory a = [] \<and> int (maxlen a) = n"
    by (auto simp: init_def split: option.splits if_splits)
  moreover have "\<forall>k. getenv_key = Some k \<and> k \<noteq> [] \<and> 0 \<le> n \<and> n \<le> ssize_t_max \<longrightarrow>
        (\<exists>a. init getenv_key m n = Inr a \<and> memory a = [] \<and> int (maxlen a) = n)"
    by (auto simp: init_def ssize_t_max_def)
  ultimately show ?thesis by blast
qed

theorem init_requires_api_key_witness:
  "init None ''gpt-4o'' 3 = Inl ValueError \<and> init (Some []) ''gpt-4o'' 3 = Inl ValueError \<and>
   (\<exists>a. init (Some ''sk-test'') ''gpt-4o'' 3 = Inr a \<and> memory a = [] \<and> int (maxlen a) = 3) \<and>
   (\<exists>a. init (Some ''sk-test'') ''gpt-4o'' (2 ^ 63 - 1) = Inr a \<and> memory a = [] \<and>
        int (maxlen a) = 2 ^ 63 - 1)"
  using init_requires_api_key [of None "''gpt-4o''" 3]
        init_requires_api_key [of "Some []" "''gpt-4o''" 3]
        init_requires_api_key [of "Some ''sk-test''" "''gpt-4o''" 3]
        init_requires_api_key [of "Some ''sk-test''" "''gpt-4o''" "2 ^ 63 - 1"]
  by (simp add: ssize_t_max_def)

section \<open>Statistics\<close>

text \<open>
  C3. On a freshly constructed instance of capacity 3, whose history is empty,
  \<open>get_memory_stats\<close> returns the three counts and no \<open>memory_capacity\<close> entry; after one
  stored interaction the entry is there.
\<close>

theorem stats_of_fresh_instance_lack_capacity:
  "init (Some ''sk-test'') ''gpt-4o'' 3 = Inr (fresh_agent 3) \<and>
   get_memory_stats (fresh_agent 3) =
     [(''total_interactions'', 0), (''factual_count'', 0), (''creative_count'', 0)] \<and>
   map_of (get_memory_stats (fresh_agent 3)) ''memory_capacity'' = None \<and>
   map_of (get_memory_stats (store_interaction (fresh_agent 3) ''q'' ''r'' ''factual'' 1))
     ''memory_capacity'' = Some 3"
  by (simp add: init_def ssize_t_max_def fresh_agent_def get_memory_stats_def store_interaction_def
        deque_append_def mk_interaction_def)

section \<open>Validation\<close>

lemma strip_empty_iff: "strip s = [] \<longleftrightarrow> (\<forall>c\<in>set s. isspace c)"
proof
  assume "strip s = []"
  then have all: "\<forall>c\<in>set (dropWhile isspace s). isspace c"
    by (simp add: strip_def)
  have "dropWhile isspace s = []"
  proof (rule ccontr)
    assume ne: "dropWhile isspace s \<noteq> []"
    then have "\<not> isspace (hd (dropWhile isspace s))" by (rule hd_dropWhile)
    with ne all show False by (metis hd_in_set)
  qed
  then show "\<forall>c\<in>set s. isspace c" by simp
next
  assume "\<forall>c\<in>set s. isspace c"
  then have "dropWhile isspace s = []" by simp
  then show "strip s = []" unfolding strip_def by (simp del: dropWhile_eq_Nil_conv)
qed

text \<open>
  C6. For an empty or whitespace-only input \<open>process_input\<close> returns the fixed message
  with the label \<open>unknown\<close> and the input as given; the instance, and with it the
  history, is unchanged, and so are the provider's state and the log of requests: no
  classification or generation request is issued.
\<close>

theorem blank_input_short_circuit:
  assumes "\<forall>c\<in>set raw. isspace c"
  shows "process_input client self raw now io =
           (\<lparr>reply_user_input = raw, reply_intent = ''unknown'',
             reply_response = ''Please provide a valid input.''\<rparr>, self, io)"
  using assms by (simp add: process_input_def strip_empty_iff)

theorem blank_input_short_circuit_witness:
  "process_input failing_provider four_agent ''   '' 5 ((), []) =
           (\<lparr>reply_user_input = ''   '', reply_intent = ''unknown'',
             reply_response = ''Please provide a valid input.''\<rparr>, four_agent, ((), [])) \<and>
   process_input failing_provider four_agent [] 5 ((), []) =
           (\<lparr>reply_user_input = [], reply_intent = ''unknown'',
             reply_response = ''Please provide a valid input.''\<rparr>, four_agent, ((), [])) \<and>
   process_input failing_provider four_agent [CHR 0xA0, CHR 0x09, CHR 0x85] 5 ((), []) =
           (\<lparr>reply_user_input = [CHR 0xA0, CHR 0x09, CHR 0x85], reply_intent = ''unknown'',
             reply_response = ''Please provide a valid input.''\<rparr>, four_agent, ((), []))"
proof -
  have h1: "\<forall>c\<in>set ''   ''. isspace c" by (simp add: isspace_def)
  have h2: "\<forall>c\<in>set ([]::string). isspace c" by simp
  have h3: "\<forall>c\<in>set [CHR 0xA0, CHR 0x09, CHR 0x85]. isspace c" by (simp add: isspace_def)
  from blank_input_short_circuit [OF h1] blank_input_short_circuit [OF h2]
       blank_input_short_circuit [OF h3]
  show ?thesis by blast
qed

section \<open>Classification\<close>

lemma detect_intent_domain:
  "fst (detect_intent client self t io) \<in> {''factual'', ''creative''}"
  by (auto simp: detect_intent_def split: prod.splits sum.splits)

text \<open>
  C4. Whatever the provider does on the classification request, \<open>_detect_intent\<close> returns
  \<open>factual\<close> or \<open>creative\<close>. It returns \<open>factual\<close> when the call raises, when the response
  has no choice or a \<open>None\<close> content, and when the stripped, lower-cased content is neither
  of the two labels; otherwise it returns that content.
\<close>

theorem detect_intent_closed_domain:
  assumes "client w (intent_request self t) = (out, w')"
  shows "fst (detect_intent client self t (w, calls)) \<in> {''factual'', ''creative''} \<and>
         (\<forall>e. out = Inl e \<longrightarrow> fst (detect_intent client self t (w, calls)) = ''factual'') \<and>
         (out = Inr [] \<longrightarrow> fst (detect_intent client self t (w, calls)) = ''factual'') \<and>
         (\<forall>rest. out = Inr (None # rest) \<longrightarrow>
            fst (detect_intent client self t (w, calls)) = ''factual'') \<and>
         (\<forall>s rest. out = Inr (Some s # rest) \<longrightarrow>
            fst (detect_intent client self t (w, calls)) =
              (if lower (strip s) \<in> {''factual'', ''creative''} then lower (strip s)
               else ''factual''))"
proof -
  have "fst (detect_intent client self t (w, calls)) \<in> {''factual'', ''creative''}"
    by (rule detect_intent_domain)
  moreover have "\<forall>e. out = Inl e \<longrightarrow> fst (detect_intent client self t (w, calls)) = ''factual''"
    using assms by (simp add: detect_intent_def detect_intent_try_def create_def)
  moreover have "out = Inr [] \<longrightarrow> fst (detect_intent client self t (w, calls)) = ''factual''"
    using assms
    by (simp add: detect_intent_def detect_intent_try_def create_def first_content_stripped_def)
  moreover have "\<forall>rest. out = Inr (None # rest) \<longrightarrow>
      fst (detect_intent client self t (w, calls)) = ''factual''"
    using assms
    by (simp add: detect_intent_def detect_intent_try_def create_def first_content_stripped_def)
  moreover have "\<forall>s rest. out = Inr (Some s # rest) \<longrightarrow>
      fst (detect_intent client self t (w, calls)) =
        (if lower (strip s) \<in> {''factual'', ''creative''} then lower (strip s) else ''factual'')"
    using assms
    by (simp add: detect_intent_def detect_intent_try_def create_def first_content_stripped_def)
  ultimately show ?thesis by blast
qed

theorem detect_intent_closed_domain_witness:
  "constant_provider ''Factual!!'' () (intent_request (fresh_agent 3) ''hello'') =
     (Inr [Some ''Factual!!''], ()) \<and>
   fst (detect_intent (constant_provider ''Factual!!'') (fresh_agent 3) ''hello'' ((), [])) = ''factual'' \<and>
   failing_provider () (intent_request (fresh_agent 3) ''hello'') = (Inl APIError, ()) \<and>
   fst (detect_intent failing_provider (fresh_agent 3) ''hello'' ((), [])) = ''factual'' \<and>
   fst (detect_intent (constant_provider (CHR 0xA0 # ''Creative'' @ [CHR 0x85])) (fresh_agent 3)
          ''hello'' ((), [])) = ''creative''"
proof -
  have h3: "constant_provider (CHR 0xA0 # ''Creative'' @ [CHR 0x85]) ()
              (intent_request (fresh_agent 3) ''hello'') =
            (Inr [Some (CHR 0xA0 # ''Creative'' @ [CHR 0x85])], ())"
    by (simp add: constant_provider_def)
  have n3: "lower (strip (CHR 0xA0 # ''Creative'' @ [CHR 0x85])) = ''creative''"
    by (simp add: lower_def strip_def isspace_def lower_char_def
          upper_letters_def lower_letters_def)
  have h1: "constant_provider ''Factual!!'' () (intent_request (fresh_agent 3) ''hello'') =
     (Inr [Some ''Factual!!''], ())"
    by (simp add: constant_provider_def)
  have h2: "failing_provider () (intent_request (fresh_agent 3) ''hello'') = (Inl APIError, ())"
    by (simp add: failing_provider_def)
  have n: "lower (strip ''Factual!!'') = ''factual!!''"
    by (simp add: lower_def strip_def isspace_def lower_char_def
          upper_letters_def lower_letters_def)
  from detect_intent_closed_domain [where client = "constant_provider ''Factual!!''" and w = "()"
         and self = "fresh_agent 3" and t = "''hello''" and out = "Inr [Some ''Factual!!'']"
         and w' = "()" and calls = "[]"]
       detect_intent_closed_domain [where client = failing_provider and w = "()"
         and self = "fresh_agent 3" and t = "''hello''" and out = "Inl APIError"
         and w' = "()" and calls = "[]"]
       detect_intent_closed_domain [where client = "constant_provider (CHR 0xA0 # ''Creative'' @ [CHR 0x85])"
         and w = "()" and self = "fresh_agent 3" and t = "''hello''"
         and out = "Inr [Some (CHR 0xA0 # ''Creative'' @ [CHR 0x85])]"
         and w' = "()" and calls = "[]"] h1 h2 h3 n n3
  show ?thesis by simp
qed

section \<open>Generation failures\<close>



section \<open>Context rendering\<close>

lemma context_lines_length: "length (context_lines xs) = 2 * length xs"
  by (induction xs) simp_all

lemma context_lines_drop: "drop (2 * k) (context_lines xs) = context_lines (drop k xs)"
proof (induction xs arbitrary: k)
  case Nil
  then show ?case by simp
next
  case (Cons x xs)
  then show ?case by (cases k) simp_all
qed

lemma last_6_context_lines: "last_n 6 (context_lines xs) = context_lines (last_n 3 xs)"
proof -
  have "2 * length xs - 6 = 2 * (length xs - 3)" by arith
  then show ?thesis
    by (simp add: last_n_def context_lines_length context_lines_drop)
qed

lemma context_lines_nth:
  "j < length xs \<Longrightarrow>
     context_lines xs ! (2 * j) = ''User: '' @ user_input (xs ! j) \<and>
     context_lines xs ! (2 * j + 1) = ''Assistant: '' @ response (xs ! j)"
proof (induction xs arbitrary: j)
  case Nil
  then show ?case by simp
next
  case (Cons x xs)
  then show ?case by (cases j) simp_all
qed

lemma last_n_all: "length xs \<le> n \<Longrightarrow> last_n n xs = xs"
  by (simp add: last_n_def)

lemma last_n_length_min: "length (last_n n xs) = min n (length xs)"
  by (simp add: last_n_def)

text \<open>
  C7, as the code has it. On an empty history \<open>_get_context_string\<close> returns the sentinel
  \<open>No previous conversation.\<close>; on a history of \<open>k\<close> records it returns the lines of the
  last \<open>min 3 k\<close> records joined by newlines: \<open>2 * min 3 k\<close> lines, the input line of a
  record followed by its response line, in insertion order. For \<open>k \<le> 3\<close> these are all
  the records and \<open>2 * k\<close> lines.
\<close>

theorem context_string_last_three:
  "(memory self = [] \<longrightarrow> get_context_string self = ''No previous conversation.'') \<and>
   (memory self \<noteq> [] \<longrightarrow>
      get_context_string self = join newline (context_lines (last_n 3 (memory self)))) \<and>
   length (context_lines (last_n 3 (memory self))) = 2 * min 3 (length (memory self)) \<and>
   (\<forall>j < min 3 (length (memory self)).
      context_lines (last_n 3 (memory self)) ! (2 * j) =
        ''User: '' @ user_input (last_n 3 (memory self) ! j) \<and>
      context_lines (last_n 3 (memory self)) ! (2 * j + 1) =
        ''Assistant: '' @ response (last_n 3 (memory self) ! j)) \<and>
   (length (memory self) \<le> 3 \<longrightarrow>
      last_n 3 (memory self) = memory self \<and>
      length (context_lines (last_n 3 (memory self))) = 2 * length (memory self))"
proof -
  have "\<forall>j < min 3 (length (memory self)).
      context_lines (last_n 3 (memory self)) ! (2 * j) =
        ''User: '' @ user_input (last_n 3 (memory self) ! j) \<and>
      context_lines (last_n 3 (memory self)) ! (2 * j + 1) =
        ''Assistant: '' @ response (last_n 3 (memory self) ! j)"
    using context_lines_nth [of _ "last_n 3 (memory self)"]
    by (simp add: last_n_length_min)
  then show ?thesis
    by (simp add: get_context_string_def last_6_context_lines context_lines_length
          last_n_length_min last_n_all)
qed


theorem context_string_last_three_witness:
  "memory (fresh_agent 3) = [] \<and> get_context_string (fresh_agent 3) = ''No previous conversation.'' \<and>
   memory (store_interaction (fresh_agent 3) ''q'' ''r'' ''factual'' 1) \<noteq> [] \<and>
   length (memory (store_interaction (fresh_agent 3) ''q'' ''r'' ''factual'' 1)) \<le> 3 \<and>
   length (context_lines (last_n 3 (memory (store_interaction (fresh_agent 3) ''q'' ''r'' ''factual'' 1)))) = 2 \<and>
   get_context_string (store_interaction (fresh_agent 3) ''q'' ''r'' ''factual'' 1) =
     join newline (context_lines (memory (store_interaction (fresh_agent 3) ''q'' ''r'' ''factual'' 1)))"
proof -
  let ?a = "store_interaction (fresh_agent 3) ''q'' ''r'' ''factual'' 1"
  have e: "memory (fresh_agent 3) = []" by (simp add: fresh_agent_def)
  have m: "memory ?a = [mk_interaction ''q'' ''r'' ''factual'' 1]"
    by (simp add: store_interaction_def fresh_agent_def deque_append_def)
  have n: "memory ?a \<noteq> []" "length (memory ?a) \<le> 3" "length (memory ?a) = 1" by (simp_all add: m)
  note t1 = context_string_last_three [of "fresh_agent 3"]
  note t2 = context_string_last_three [of ?a]
  from t1 e have c1: "get_context_string (fresh_agent 3) = ''No previous conversation.''"
    by blast
  from t2 n(1) have c2: "get_context_string ?a = join newline (context_lines (last_n 3 (memory ?a)))"
    by blast
  from t2 n(2) have c3: "last_n 3 (memory ?a) = memory ?a"
    by blast
  from t2 n(2) have c4: "length (context_lines (last_n 3 (memory ?a))) = 2 * length (memory ?a)"
    by blast
  show ?thesis using e n c1 c2 c3 c4 by simp
qed

text \<open>
  C7, as stated, fails on a history of capacity 4 holding 4 records: the string has
  the six lines of the last three records, not the eight lines of all four.
\<close>

theorem context_string_four_records:
  "length (memory four_agent) = 4 \<and> length (memory four_agent) \<le> maxlen four_agent \<and>
   length (context_lines (memory four_agent)) = 8 \<and>
   get_context_string four_agent =
     join newline [''User: q2'', ''Assistant: r2'', ''User: q3'', ''Assistant: r3'',
                   ''User: q4'', ''Assistant: r4''] \<and>
   get_context_string four_agent \<noteq> join newline (context_lines (memory four_agent))"
  by (simp add: four_agent_def fresh_agent_def store_interaction_def deque_append_def
        mk_interaction_def get_context_string_def last_n_def newline_def)

section \<open>The context handed to the generator\<close>

lemma detect_intent_log:
  "snd (snd (detect_intent client self t (w, calls))) = calls @ [intent_request self t]"
  by (simp add: detect_intent_def detect_intent_try_def create_def
        split: prod.splits sum.splits)

lemma generate_factual_log:
  "snd (snd (generate_factual_response client self t (w, calls))) = calls @ [factual_request self t]"
  by (simp add: generate_factual_response_def generate_try_def create_def
        split: prod.splits sum.splits)

lemma generate_creative_log:
  "snd (snd (generate_creative_response client self t (w, calls))) = calls @ [creative_request self t]"
  by (simp add: generate_creative_response_def generate_try_def create_def
        split: prod.splits sum.splits)

lemma process_input_log:
  assumes "strip raw \<noteq> []"
  shows "snd (snd (snd (process_input client self raw now (w, calls)))) =
           calls @ [intent_request self (strip raw),
                    if reply_intent (fst (process_input client self raw now (w, calls))) = ''creative''
                    then creative_request self (strip raw) else factual_request self (strip raw)]"
proof -
  have raw: "raw \<noteq> []" using assms by (auto simp: strip_def)
  obtain label w1 calls1 where d: "detect_intent client self (strip raw) (w, calls) = (label, w1, calls1)"
    by (metis prod_cases3)
  have c1: "calls1 = calls @ [intent_request self (strip raw)]"
    using detect_intent_log [of client self "strip raw" w calls] d by simp
  show ?thesis
  proof (cases "label = ''creative''")
    case True
    obtain resp w2 calls2 where g: "generate_creative_response client self (strip raw) (w1, calls1) = (resp, w2, calls2)"
      by (metis prod_cases3)
    have "calls2 = calls1 @ [creative_request self (strip raw)]"
      using generate_creative_log [of client self "strip raw" w1 calls1] g by simp
    with True assms raw d g c1 show ?thesis by (simp add: process_input_def Let_def)
  next
    case False
    obtain resp w2 calls2 where g: "generate_factual_response client self (strip raw) (w1, calls1) = (resp, w2, calls2)"
      by (metis prod_cases3)
    have "calls2 = calls1 @ [factual_request self (strip raw)]"
      using generate_factual_log [of client self "strip raw" w1 calls1] g by simp
    with False assms raw d g c1 show ?thesis by (simp add: process_input_def Let_def)
  qed
qed

text \<open>
  C2, as the code has it. A processed request issues the classification request and
  then one generation request, that of the variant named by the returned label. The
  user message of the generation request carries the context string of the history as
  it was before the request: the sentinel when it is empty, otherwise the input and
  response lines of its last three records (of all of them when it holds at most
  three), in insertion order.
\<close>

theorem generator_context_last_three:
  assumes "strip raw \<noteq> []"
  shows "(let ctx = (if memory self = [] then ''No previous conversation.''
                     else join newline (context_lines (last_n 3 (memory self))));
              label = reply_intent (fst (process_input client self raw now (w, calls)));
              greq = (if label = ''creative'' then creative_request self (strip raw)
                      else factual_request self (strip raw))
          in snd (snd (snd (process_input client self raw now (w, calls)))) =
               calls @ [intent_request self (strip raw), greq] \<and>
             req_user greq =
               (if label = ''creative'' then creative_user_message ctx (strip raw)
                else factual_user_message ctx (strip raw)) \<and>
             (length (memory self) \<le> 3 \<longrightarrow> last_n 3 (memory self) = memory self))"
  using process_input_log [OF assms, of client self now w calls]
  by (simp add: Let_def creative_request_def factual_request_def get_context_string_def
        last_6_context_lines last_n_all)

theorem generator_context_last_three_witness:
  "strip ''q5'' \<noteq> [] \<and>
   snd (snd (snd (process_input (constant_provider ''factual'') four_agent ''q5'' 5 ((), [])))) =
     [intent_request four_agent (strip ''q5''),
      if reply_intent (fst (process_input (constant_provider ''factual'') four_agent ''q5'' 5 ((), []))) = ''creative''
      then creative_request four_agent (strip ''q5'') else factual_request four_agent (strip ''q5'')]"
proof -
  have h: "strip ''q5'' \<noteq> []" by (simp add: strip_def isspace_def)
  from generator_context_last_three [OF h, of four_agent "constant_provider ''factual''" 5 "()" "[]"] h
  show ?thesis by (simp add: Let_def)
qed

text \<open>
  C2, as stated, fails for \<open>memory_size = 4\<close> with four stored interactions: the
  generation request carries the lines of the last three, and the first stored
  interaction is missing from it.
\<close>

theorem generator_context_four_records:
  "length (memory four_agent) = 4 \<and> maxlen four_agent = 4 \<and>
   snd (snd (snd (process_input (constant_provider ''factual'') four_agent ''q5'' 5 ((), [])))) =
     [intent_request four_agent ''q5'', factual_request four_agent ''q5''] \<and>
   req_user (factual_request four_agent ''q5'') =
     factual_user_message
       (join newline [''User: q2'', ''Assistant: r2'', ''User: q3'', ''Assistant: r3'',
                      ''User: q4'', ''Assistant: r4'']) ''q5'' \<and>
   req_user (factual_request four_agent ''q5'') \<noteq>
     factual_user_message (join newline (context_lines (memory four_agent))) ''q5''"
proof -
  have s: "strip ''q5'' = ''q5''" by (simp add: strip_def isspace_def)
  have m: "memory four_agent =
     [mk_interaction ''q1'' ''r1'' ''factual'' 1, mk_interaction ''q2'' ''r2'' ''creative'' 2,
      mk_interaction ''q3'' ''r3'' ''factual'' 3, mk_interaction ''q4'' ''r4'' ''factual'' 4]"
    "maxlen four_agent = 4"
    by (simp_all add: four_agent_def fresh_agent_def store_interaction_def deque_append_def)
  have c: "get_context_string four_agent =
     join newline [''User: q2'', ''Assistant: r2'', ''User: q3'', ''Assistant: r3'',
                   ''User: q4'', ''Assistant: r4'']"
    by (simp add: get_context_string_def m mk_interaction_def last_n_def)
  have d: "detect_intent (constant_provider ''factual'') four_agent ''q5'' ((), []) =
             (''factual'', (), [intent_request four_agent ''q5''])"
    by (simp add: detect_intent_def detect_intent_try_def create_def constant_provider_def
          first_content_stripped_def strip_def isspace_def lower_def lower_char_def)
  have g: "snd (snd (generate_factual_response (constant_provider ''factual'') four_agent ''q5''
                 ((), [intent_request four_agent ''q5'']))) =
             [intent_request four_agent ''q5'', factual_request four_agent ''q5'']"
    by (simp add: generate_factual_log)
  have p: "snd (snd (snd (process_input (constant_provider ''factual'') four_agent ''q5'' 5 ((), [])))) =
     [intent_request four_agent ''q5'', factual_request four_agent ''q5'']"
    using g by (auto simp: process_input_def Let_def s d split: prod.splits)
  have u: "req_user (factual_request four_agent ''q5'') =
     factual_user_message (get_context_string four_agent) ''q5''"
    by (simp add: factual_request_def)
  have ne: "factual_user_message (get_context_string four_agent) ''q5'' \<noteq>
     factual_user_message (join newline (context_lines (memory four_agent))) ''q5''"
    by (simp add: c m mk_interaction_def factual_user_message_def newline_def)
  show ?thesis using m(2) p u ne by (simp add: c m(1))
qed

section \<open>Labels and counts\<close>

lemma deque_append_set: "set (deque_append n d x) \<subseteq> insert x (set d)"
  by (cases d) (auto simp: deque_append_def Let_def dest: list.set_sel(2))

lemma store_interaction_labels:
  assumes "\<forall>i\<in>set (memory a). intent i \<in> {''factual'', ''creative''}"
      and "label \<in> {''factual'', ''creative''}"
  shows "\<forall>i\<in>set (memory (store_interaction a t resp label now)). intent i \<in> {''factual'', ''creative''}"
proof
  fix i assume "i \<in> set (memory (store_interaction a t resp label now))"
  then have "i = mk_interaction t resp label now \<or> i \<in> set (memory a)"
    using deque_append_set [of "maxlen a" "memory a" "mk_interaction t resp label now"]
    by (auto simp: store_interaction_def)
  with assms show "intent i \<in> {''factual'', ''creative''}"
    by (auto simp: mk_interaction_def)
qed

lemma process_input_labels:
  assumes "\<forall>i\<in>set (memory a). intent i \<in> {''factual'', ''creative''}"
  shows "\<forall>i\<in>set (memory (fst (snd (process_input client a raw now io)))).
           intent i \<in> {''factual'', ''creative''}"
proof (cases "raw = [] \<or> strip raw = []")
  case True
  with assms show ?thesis by (simp add: process_input_def)
next
  case False
  obtain label io1 where d: "detect_intent client a (strip raw) io = (label, io1)"
    by (metis surj_pair)
  have dom: "label \<in> {''factual'', ''creative''}"
    using detect_intent_domain [of client a "strip raw" io] d by simp
  have "fst (snd (process_input client a raw now io)) =
          store_interaction a (strip raw)
            (fst (if label = ''creative'' then generate_creative_response client a (strip raw) io1
                  else generate_factual_response client a (strip raw) io1)) label now"
    using False d by (simp add: process_input_def Let_def split: prod.splits)
  then show ?thesis using store_interaction_labels [OF assms dom] by simp
qed

lemma run_op_labels:
  assumes "\<forall>i\<in>set (memory (fst st)). intent i \<in> {''factual'', ''creative''}"
      and "well_formed_op x"
  shows "\<forall>i\<in>set (memory (fst (run_op client st x))). intent i \<in> {''factual'', ''creative''}"
proof -
  obtain a io where Pair: "st = (a, io)" by (metis surj_pair)
  show ?thesis
  proof (cases x)
    case (Process raw now)
    have "fst (run_op client st x) = fst (snd (process_input client a raw now io))"
      by (simp add: Pair Process split: prod.splits)
    then show ?thesis using process_input_labels [of a client raw now io] assms(1) Pair by simp
  next
    case (Append t resp label now)
    then show ?thesis using assms Pair store_interaction_labels [of a label t resp now] by simp
  next
    case Clear
    then show ?thesis using Pair by (simp add: clear_memory_def)
  qed
qed

lemma run_ops_labels:
  "\<forall>i\<in>set (memory (fst st)). intent i \<in> {''factual'', ''creative''} \<Longrightarrow>
   \<forall>x\<in>set ops. well_formed_op x \<Longrightarrow>
   \<forall>i\<in>set (memory (fst (run_ops client st ops))). intent i \<in> {''factual'', ''creative''}"
proof (induction ops arbitrary: st)
  case Nil
  then show ?case by simp
next
  case (Cons x xs)
  have "\<forall>i\<in>set (memory (fst (run_op client st x))). intent i \<in> {''factual'', ''creative''}"
    using run_op_labels [of st x client] Cons.prems by simp
  then show ?case using Cons.IH [of "run_op client st x"] Cons.prems(2) by simp
qed

lemma count_by_label:
  "\<forall>i\<in>set xs. intent i \<in> {''factual'', ''creative''} \<Longrightarrow>
   length xs = length (filter (\<lambda>i. intent i = ''factual'') xs) +
               length (filter (\<lambda>i. intent i = ''creative'') xs)"
  by (induction xs) auto

text \<open>
  C8, as the code has it. After any run of \<open>process_input\<close> and \<open>clear_memory\<close> calls and
  of \<open>_store_interaction\<close> calls whose label is \<open>factual\<close> or \<open>creative\<close>, on a freshly
  constructed instance, \<open>get_memory_stats\<close> has
  \<open>total_interactions = factual_count + creative_count\<close>, and every stored record is
  labelled \<open>factual\<close> or \<open>creative\<close>, never \<open>unknown\<close>. Runs of \<open>process_input\<close> and
  \<open>clear_memory\<close> alone are covered without any condition.
\<close>

theorem stats_counts_sum:
  assumes "init getenv_key m n = Inr a0"
      and "\<forall>x\<in>set ops. well_formed_op x"
  shows "(\<exists>t f c.
            map_of (get_memory_stats (fst (run_ops client (a0, io) ops))) ''total_interactions'' = Some t \<and>
            map_of (get_memory_stats (fst (run_ops client (a0, io) ops))) ''factual_count'' = Some f \<and>
            map_of (get_memory_stats (fst (run_ops client (a0, io) ops))) ''creative_count'' = Some c \<and>
            t = f + c) \<and>
         (\<forall>i\<in>set (memory (fst (run_ops client (a0, io) ops))).
            intent i \<in> {''factual'', ''creative''} \<and> intent i \<noteq> ''unknown'')"
proof -
  let ?a = "fst (run_ops client (a0, io) ops)"
  from assms(1) have "memory a0 = []"
    by (auto simp: init_def split: option.splits if_splits)
  then have "\<forall>i\<in>set (memory (fst (a0, io))). intent i \<in> {''factual'', ''creative''}" by simp
  from run_ops_labels [OF this assms(2)]
  have lab: "\<forall>i\<in>set (memory ?a). intent i \<in> {''factual'', ''creative''}" .
  have sum: "int (length (memory ?a)) =
      int (length (filter (\<lambda>i. intent i = ''factual'') (memory ?a))) +
      int (length (filter (\<lambda>i. intent i = ''creative'') (memory ?a)))"
    using count_by_label [OF lab] by simp
  have stats: "\<exists>t f c.
            map_of (get_memory_stats ?a) ''total_interactions'' = Some t \<and>
            map_of (get_memory_stats ?a) ''factual_count'' = Some f \<and>
            map_of (get_memory_stats ?a) ''creative_count'' = Some c \<and>
            t = f + c"
    using sum by (simp add: get_memory_stats_def)
  have "\<forall>i\<in>set (memory ?a). intent i \<noteq> ''unknown''"
    using lab by auto
  with stats lab show ?thesis by blast
qed

theorem stats_counts_sum_witness:
  "init (Some ''sk-test'') ''gpt-4o'' 3 = Inr (fresh_agent 3) \<and>
   (\<exists>t f c.
      map_of (get_memory_stats (fst (run_ops (constant_provider ''maybe'') (fresh_agent 3, ((), []))
        [Process ''hello'' 1, Append ''a'' ''b'' ''creative'' 2, Process '''' 3, Clear,
         Process ''write a poem'' 4]))) ''total_interactions'' = Some t \<and>
      map_of (get_memory_stats (fst (run_ops (constant_provider ''maybe'') (fresh_agent 3, ((), []))
        [Process ''hello'' 1, Append ''a'' ''b'' ''creative'' 2, Process '''' 3, Clear,
         Process ''write a poem'' 4]))) ''factual_count'' = Some f \<and>
      map_of (get_memory_stats (fst (run_ops (constant_provider ''maybe'') (fresh_agent 3, ((), []))
        [Process ''hello'' 1, Append ''a'' ''b'' ''creative'' 2, Process '''' 3, Clear,
         Process ''write a poem'' 4]))) ''creative_count'' = Some c \<and>
      t = f + c)"
proof -
  let ?ops = "[Process ''hello'' 1, Append ''a'' ''b'' ''creative'' 2, Process '''' 3, Clear,
               Process ''write a poem'' 4]"
  have h1: "init (Some ''sk-test'') ''gpt-4o'' 3 = Inr (fresh_agent 3)"
    by (simp add: init_def ssize_t_max_def fresh_agent_def)
  have h2: "\<forall>x\<in>set ?ops. well_formed_op x" by simp
  from stats_counts_sum [OF h1 h2, of "constant_provider ''maybe''" "((), [])"] h1 h2
  show ?thesis by blast
qed

text \<open>
  C8, as stated for every append, fails: \<open>_store_interaction\<close> checks nothing, so an
  append with the label \<open>unknown\<close> on a fresh instance stores that record, and the
  counts no longer add up (1 interaction, 0 factual, 0 creative).
\<close>

theorem stats_after_unlabelled_append:
  "init (Some ''sk-test'') ''gpt-4o'' 3 = Inr (fresh_agent 3) \<and>
   memory (fst (run_ops failing_provider (fresh_agent 3, ((), []))
                  [Append ''a'' ''b'' ''unknown'' 1])) =
     [\<lparr>user_input = ''a'', response = ''b'', intent = ''unknown'', timestamp = 1\<rparr>] \<and>
   get_memory_stats (fst (run_ops failing_provider (fresh_agent 3, ((), []))
                            [Append ''a'' ''b'' ''unknown'' 1])) =
     [(''total_interactions'', 1), (''factual_count'', 0), (''creative_count'', 0),
      (''memory_capacity'', 3)]"
  by (simp add: init_def ssize_t_max_def fresh_agent_def store_interaction_def deque_append_def
        mk_interaction_def get_memory_stats_def)

section \<open>The list returned by \<open>get_memory_summary\<close>\<close>

lemma h_records_cong:
  assumes "\<And>r. h_dict h1 r = h_dict h2 r"
  shows "h_records h1 rs = h_records h2 rs"
proof -
  have "h_dict h1 = h_dict h2" by (rule ext) (rule assms)
  then show ?thesis by (simp add: h_records_def)
qed

lemma h_memory_cong:
  assumes "h_lookup h1 m = h_lookup h2 m" and "\<And>r. h_dict h1 r = h_dict h2 r"
  shows "h_memory h1 m = h_memory h2 m"
proof -
  have "h_records h1 rs = h_records h2 rs" for rs
    using assms(2) by (rule h_records_cong)
  with assms(1) show ?thesis
    by (simp add: h_memory_def split: option.splits pyobj.splits)
qed

lemma h_get_memory_stats_cong:
  "h_memory h1 m = h_memory h2 m \<Longrightarrow> h_get_memory_stats h1 m = h_get_memory_stats h2 m"
  by (simp add: h_get_memory_stats_def)

lemma h_lookup_append:
  "h_lookup (h @ [obj]) r = (if r = length h then Some obj else h_lookup h r)"
  by (auto simp: h_lookup_def nth_append)

lemma h_dict_append_list: "h_dict (h @ [ListObj ys]) r = h_dict h r"
  by (auto simp: h_dict_def h_lookup_def nth_append less_Suc_eq)

lemma those_eq_Some: "those xs = Some ys \<longleftrightarrow> xs = map Some ys"
  by (induction xs arbitrary: ys) (auto split: option.splits)

lemma map_deque_append: "map f (deque_append n xs x) = deque_append n (map f xs) (f x)"
  by (simp add: deque_append_def Let_def map_tl)

lemma h_records_eq_Some: "h_records h rs = Some recs \<longleftrightarrow> map (h_dict h) rs = map Some recs"
  by (simp add: h_records_def those_eq_Some)

lemma h_memory_eq_Some:
  "h_memory h m = Some (recs, n) \<longleftrightarrow>
     (\<exists>rs. h_lookup h m = Some (DequeObj rs n) \<and> h_records h rs = Some recs)"
  by (auto simp: h_memory_def split: option.splits pyobj.splits)

text \<open>
  The heap operations act on the records as the operations on the instance do: when
  the deque at \<open>m\<close> stands for the records \<open>recs\<close> with capacity \<open>n\<close>,
  \<open>h_store_interaction\<close> leaves it standing for \<open>deque_append n recs\<close> of the new
  record, the list \<open>h_get_memory_summary\<close> returns stands for \<open>recs\<close>, and
  \<open>h_get_memory_stats\<close> is \<open>get_memory_stats\<close>.
\<close>

lemma h_store_interaction_memory:
  assumes "h_memory h m = Some (recs, n)"
  shows "\<exists>h2. h_store_interaction h m t resp label now = Some h2 \<and>
              h_memory h2 m = Some (deque_append n recs (mk_interaction t resp label now), n)"
proof -
  let ?d = "mk_interaction t resp label now"
  from assms obtain rs where look: "h_lookup h m = Some (DequeObj rs n)"
    and recs: "map (h_dict h) rs = map Some recs"
    by (auto simp: h_memory_eq_Some h_records_eq_Some)
  let ?h2 = "(h @ [DictObj ?d])[m := DequeObj (deque_append n rs (length h)) n]"
  have m: "m < length h" "h ! m = DequeObj rs n"
    using look by (auto simp: h_lookup_def split: if_splits)
  have st: "h_store_interaction h m t resp label now = Some ?h2"
    using look by (simp add: h_store_interaction_def h_alloc_def)
  have l2: "h_lookup ?h2 m = Some (DequeObj (deque_append n rs (length h)) n)"
    using m by (simp add: h_lookup_def)
  have new: "h_dict ?h2 (length h) = Some ?d"
    using m by (simp add: h_dict_def h_lookup_def)
  have old: "h_dict ?h2 r = h_dict h r" if "r \<in> set rs" for r
  proof -
    from that recs obtain d where "h_dict h r = Some d"
      by (metis (no_types, lifting) imageE image_eqI list.set_map)
    then have "r < length h" "r \<noteq> m"
      using m by (auto simp: h_dict_def h_lookup_def split: if_splits)
    then show ?thesis
      by (simp add: h_dict_def h_lookup_def nth_append)
  qed
  have "map (h_dict ?h2) (deque_append n rs (length h)) =
          deque_append n (map (h_dict ?h2) rs) (h_dict ?h2 (length h))"
    by (rule map_deque_append)
  also have "map (h_dict ?h2) rs = map (h_dict h) rs"
    using old by simp
  also have "deque_append n (map (h_dict h) rs) (h_dict ?h2 (length h)) =
               map Some (deque_append n recs ?d)"
    by (simp add: recs new map_deque_append)
  finally have "h_records ?h2 (deque_append n rs (length h)) = Some (deque_append n recs ?d)"
    by (simp add: h_records_eq_Some)
  with l2 have "h_memory ?h2 m = Some (deque_append n recs ?d, n)"
    by (auto simp: h_memory_eq_Some)
  with st show ?thesis by blast
qed

lemma h_get_memory_summary_records:
  assumes "h_memory h m = Some (recs, n)"
  shows "\<exists>l h' rs. h_get_memory_summary h m = Some (l, h') \<and> h_lookup h' l = Some (ListObj rs) \<and>
            h_records h' rs = Some recs"
proof -
  from assms obtain rs where look: "h_lookup h m = Some (DequeObj rs n)"
    and recs: "h_records h rs = Some recs"
    by (auto simp: h_memory_eq_Some)
  have "h_get_memory_summary h m = Some (length h, h @ [ListObj rs])"
    using look by (simp add: h_get_memory_summary_def h_alloc_def)
  moreover have "h_lookup (h @ [ListObj rs]) (length h) = Some (ListObj rs)"
    by (simp add: h_lookup_append)
  moreover have "h_records (h @ [ListObj rs]) rs = Some recs"
    using recs h_records_cong [of "h @ [ListObj rs]" h rs] by (simp add: h_dict_append_list)
  ultimately show ?thesis by blast
qed

lemma h_get_memory_stats_agent:
  "h_memory h m = Some (memory a, maxlen a) \<Longrightarrow> h_get_memory_stats h m = Some (get_memory_stats a)"
  by (simp add: h_get_memory_stats_def get_memory_stats_def)

lemma caller_mutates_list_memory:
  assumes "h_lookup h m = Some (DequeObj rs n)"
  shows "h_memory (caller_mutates_list (h @ [ListObj rs]) (length h) ys) m = h_memory h m"
proof -
  have m: "m < length h" using assms by (simp add: h_lookup_def split: if_splits)
  have eq: "caller_mutates_list (h @ [ListObj rs]) (length h) ys = h @ [ListObj ys]"
    by (simp add: caller_mutates_list_def)
  have "h_lookup (h @ [ListObj ys]) m = h_lookup h m"
    using m by (simp add: h_lookup_append)
  then have "h_memory (h @ [ListObj ys]) m = h_memory h m"
    by (rule h_memory_cong) (rule h_dict_append_list)
  then show ?thesis by (simp add: eq)
qed

text \<open>
  C9, as the code has it. On a history whose deque refers to the records \<open>recs\<close>,
  \<open>get_memory_summary\<close> returns a new list object holding those records in order.
  Whatever the caller then makes of that list object, the history still holds \<open>recs\<close>
  with the same capacity, \<open>get_memory_stats\<close> is unchanged, a following
  \<open>_store_interaction\<close> appends to \<open>recs\<close> as usual, and a following
  \<open>get_memory_summary\<close> returns \<open>recs\<close> again.
\<close>

theorem summary_list_is_a_copy:
  assumes "h_memory h m = Some (recs, n)"
  shows "\<exists>l h' rs.
           h_get_memory_summary h m = Some (l, h') \<and>
           h_lookup h' l = Some (ListObj rs) \<and>
           h_records h' rs = Some recs \<and>
           h_memory h' m = Some (recs, n) \<and>
           (\<forall>ys.
              h_memory (caller_mutates_list h' l ys) m = Some (recs, n) \<and>
              h_get_memory_stats (caller_mutates_list h' l ys) m = h_get_memory_stats h m \<and>
              (\<forall>t resp label now. \<exists>h2.
                 h_store_interaction (caller_mutates_list h' l ys) m t resp label now = Some h2 \<and>
                 h_memory h2 m = Some (deque_append n recs (mk_interaction t resp label now), n)) \<and>
              (\<exists>l2 h3 rs2.
                 h_get_memory_summary (caller_mutates_list h' l ys) m = Some (l2, h3) \<and>
                 h_lookup h3 l2 = Some (ListObj rs2) \<and>
                 h_records h3 rs2 = Some recs))"
proof -
  from assms obtain rs where look: "h_lookup h m = Some (DequeObj rs n)"
    and recs: "h_records h rs = Some recs"
    by (auto simp: h_memory_eq_Some)
  let ?l = "length h" and ?h' = "h @ [ListObj rs]"
  have m: "m < length h" using look by (simp add: h_lookup_def split: if_splits)
  have s: "h_get_memory_summary h m = Some (?l, ?h')"
    using look by (simp add: h_get_memory_summary_def h_alloc_def)
  have l: "h_lookup ?h' ?l = Some (ListObj rs)" by (simp add: h_lookup_append)
  have r: "h_records ?h' rs = Some recs"
    using recs h_records_cong [of ?h' h rs] by (simp add: h_dict_append_list)
  have "h_lookup ?h' m = h_lookup h m" using m by (simp add: h_lookup_append)
  then have "h_memory ?h' m = h_memory h m"
    by (rule h_memory_cong) (rule h_dict_append_list)
  then have mem: "h_memory ?h' m = Some (recs, n)" by (simp add: assms)
  have mut: "h_memory (caller_mutates_list ?h' ?l ys) m = Some (recs, n) \<and>
      h_get_memory_stats (caller_mutates_list ?h' ?l ys) m = h_get_memory_stats h m \<and>
      (\<forall>t resp label now. \<exists>h2.
         h_store_interaction (caller_mutates_list ?h' ?l ys) m t resp label now = Some h2 \<and>
         h_memory h2 m = Some (deque_append n recs (mk_interaction t resp label now), n)) \<and>
      (\<exists>l2 h3 rs2.
         h_get_memory_summary (caller_mutates_list ?h' ?l ys) m = Some (l2, h3) \<and>
         h_lookup h3 l2 = Some (ListObj rs2) \<and>
         h_records h3 rs2 = Some recs)" for ys
  proof -
    have a: "h_memory (caller_mutates_list ?h' ?l ys) m = Some (recs, n)"
      using caller_mutates_list_memory [OF look, of ys] assms by simp
    have b: "h_get_memory_stats (caller_mutates_list ?h' ?l ys) m = h_get_memory_stats h m"
      by (rule h_get_memory_stats_cong) (simp add: a assms)
    from a b h_store_interaction_memory [OF a] h_get_memory_summary_records [OF a]
    show ?thesis by blast
  qed
  from s l r mem mut show ?thesis by blast
qed

theorem summary_list_is_a_copy_witness:
  "h_memory one_record_heap 0 = Some ([mk_interaction ''q'' ''r'' ''factual'' 1], 3) \<and>
   (\<exists>l h' rs. h_get_memory_summary one_record_heap 0 = Some (l, h') \<and>
      h_lookup h' l = Some (ListObj rs) \<and>
      h_records h' rs = Some [mk_interaction ''q'' ''r'' ''factual'' 1] \<and>
      h_memory (caller_mutates_list h' l []) 0 =
        Some ([mk_interaction ''q'' ''r'' ''factual'' 1], 3))"
proof -
  have h: "h_memory one_record_heap 0 = Some ([mk_interaction ''q'' ''r'' ''factual'' 1], 3)"
    by (simp add: one_record_heap_def h_memory_def h_lookup_def h_records_def h_dict_def)
  from summary_list_is_a_copy [OF h] h show ?thesis by blast
qed

text \<open>
  C9, as stated, fails for a mutation of an element: the returned list holds the
  history's own dictionary objects, so after \<open>summary[0]['intent'] = 'unknown'\<close> the
  stored record is labelled \<open>unknown\<close> and \<open>factual_count\<close> drops from 1 to 0.
\<close>

theorem summary_elements_are_shared:
  "h_new_memory [] 3 = (0, [DequeObj [] 3]) \<and>
   h_store_interaction [DequeObj [] 3] 0 ''q'' ''r'' ''factual'' 1 = Some one_record_heap \<and>
   h_get_memory_summary one_record_heap 0 = Some (2, one_record_heap @ [ListObj [1]]) \<and>
   h_memory (one_record_heap @ [ListObj [1]]) 0 =
     Some ([mk_interaction ''q'' ''r'' ''factual'' 1], 3) \<and>
   h_get_memory_stats (one_record_heap @ [ListObj [1]]) 0 =
     Some [(''total_interactions'', 1), (''factual_count'', 1), (''creative_count'', 0),
           (''memory_capacity'', 3)] \<and>
   caller_sets_intent (one_record_heap @ [ListObj [1]]) 2 0 ''unknown'' =
     Some [DequeObj [1] 3, DictObj (mk_interaction ''q'' ''r'' ''unknown'' 1), ListObj [1]] \<and>
   h_memory [DequeObj [1] 3, DictObj (mk_interaction ''q'' ''r'' ''unknown'' 1), ListObj [1]] 0 =
     Some ([mk_interaction ''q'' ''r'' ''unknown'' 1], 3) \<and>
   h_memory [DequeObj [1] 3, DictObj (mk_interaction ''q'' ''r'' ''unknown'' 1), ListObj [1]] 0 \<noteq>
     h_memory (one_record_heap @ [ListObj [1]]) 0 \<and>
   h_get_memory_stats
       [DequeObj [1] 3, DictObj (mk_interaction ''q'' ''r'' ''unknown'' 1), ListObj [1]] 0 =
     Some [(''total_interactions'', 1), (''factual_count'', 0), (''creative_count'', 0),
           (''memory_capacity'', 3)]"
  by (simp add: h_new_memory_def h_alloc_def h_store_interaction_def h_lookup_def
        one_record_heap_def deque_append_def h_get_memory_summary_def h_get_memory_stats_def
        h_memory_def h_records_def h_dict_def caller_sets_intent_def mk_interaction_def)

end
